theory Spec2Isabelle
  imports Complex_Main
begin

section \<open>The drone flight model of \<^verbatim>\<open>drone.py\<close>\<close>

text \<open>
  A shallow embedding of the class \<^verbatim>\<open>Drone\<close>. Python numbers are read as exact reals
  (no rounding, no overflow); every exception the interpreter raises is a value
  \<open>Inl e\<close> of a result type, and a method that can assign to the object returns the
  object as it stands when the call ends, together with that result.
\<close>

subsection \<open>Exceptions and results\<close>

datatype py_error =
    NameError string
  | TypeError string
  | AttributeError string
  | IndexError
  | ZeroDivisionError

type_synonym 'a result = "py_error + 'a"

definition and_then :: "'a result \<Rightarrow> ('a \<Rightarrow> 'b result) \<Rightarrow> 'b result" where
  "and_then m k = (case m of Inl e \<Rightarrow> Inl e | Inr v \<Rightarrow> k v)"

subsection \<open>Python operations used by the class\<close>

text \<open>True division \<^verbatim>\<open>a / b\<close> of numbers raises on a zero divisor.\<close>

definition py_truediv :: "real \<Rightarrow> real \<Rightarrow> real result" where
  "py_truediv a b = (if b = 0 then Inl ZeroDivisionError else Inr (a / b))"

text \<open>Subscription \<^verbatim>\<open>xs[i]\<close> with a literal index \<open>i \<ge> 0\<close>.\<close>

definition py_getitem :: "'a list \<Rightarrow> nat \<Rightarrow> 'a result" where
  "py_getitem xs i = (if i < length xs then Inr (xs ! i) else Inl IndexError)"

text \<open>
  In-place multiplication of a list, \<^verbatim>\<open>xs *= k\<close>: an integer repeats the list
  (not at all when \<open>k \<le> 0\<close>), any other right operand is a type error.
\<close>

datatype py_operand = PyInt int | PyList "real list"

fun list_imul :: "real list \<Rightarrow> py_operand \<Rightarrow> real list result" where
  "list_imul xs (PyInt k) = Inr (concat (replicate (nat k) xs))"
| "list_imul xs (PyList ys) =
     Inl (TypeError ''can't multiply sequence by non-int of type 'list' '')"

text \<open>
  The names bound at module level: the two import statements and the class
  statement. A name that is read and is neither local nor bound here raises.
\<close>

definition module_globals :: "string list" where
  "module_globals = [''Vector'', ''pi'', ''cos'', ''sin'', ''Drone'']"

definition load_global :: "string \<Rightarrow> unit result" where
  "load_global name =
     (if name \<in> set module_globals then Inr () else Inl (NameError name))"

subsection \<open>The vector collaborator\<close>

text \<open>
  Modelled from the spec: the module \<^verbatim>\<open>vector\<close> that \<^verbatim>\<open>drone.py\<close> imports its class
  \<^verbatim>\<open>Vector\<close> from is not among the sources. The specification describes it as a
  three-component numeric tuple \<open>(x, y, z)\<close>, constructed from three numbers or as
  zero by default, with component-wise addition and subtraction and multiplication
  and division by a scalar. Division is Python's \<^verbatim>\<open>/\<close> on each component.
\<close>

record vector =
  x :: real
  y :: real
  z :: real

definition Vector :: "real \<Rightarrow> real \<Rightarrow> real \<Rightarrow> vector" where
  "Vector a b c = \<lparr>x = a, y = b, z = c\<rparr>"

definition Vector_default :: vector where
  "Vector_default = Vector 0 0 0"

definition vector_add :: "vector \<Rightarrow> vector \<Rightarrow> vector" where
  "vector_add u v = Vector (x u + x v) (y u + y v) (z u + z v)"

definition vector_sub :: "vector \<Rightarrow> vector \<Rightarrow> vector" where
  "vector_sub u v = Vector (x u - x v) (y u - y v) (z u - z v)"

definition vector_mul :: "vector \<Rightarrow> real \<Rightarrow> vector" where
  "vector_mul v k = Vector (x v * k) (y v * k) (z v * k)"

definition vector_truediv :: "vector \<Rightarrow> real \<Rightarrow> vector result" where
  "vector_truediv v k =
     and_then (py_truediv (x v) k) (\<lambda>a.
     and_then (py_truediv (y v) k) (\<lambda>b.
     and_then (py_truediv (z v) k) (\<lambda>c. Inr (Vector a b c))))"

subsection \<open>The object\<close>

text \<open>
  The instance attributes are the eleven that \<^verbatim>\<open>__init__\<close> assigns; no method
  assigns any other. The attribute \<^verbatim>\<open>size\<close> is the field \<open>size'\<close>.
\<close>

record drone =
  rotation :: vector
  rotation_velocity :: vector
  pos :: vector
  velocity :: vector
  r_speed :: "real list"
  r :: real
  weight :: real
  size' :: real
  m_of_i_xx :: real
  m_of_i_zz :: real
  m_of_i_r :: real

text \<open>\<^verbatim>\<open>__init__\<close>: eleven assignments, no check of any argument.\<close>

definition Drone_init ::
  "real \<Rightarrow> real \<Rightarrow> real \<Rightarrow> real \<Rightarrow> real \<Rightarrow> real \<Rightarrow> drone result" where
  "Drone_init rotor_radius weight_arg size_arg xx zz rr =
     Inr \<lparr>rotation = Vector_default,
          rotation_velocity = Vector_default,
          pos = Vector_default,
          velocity = Vector_default,
          r_speed = [0, 0, 0, 0],
          r = rotor_radius,
          weight = weight_arg,
          size' = size_arg,
          m_of_i_xx = xx,
          m_of_i_zz = zz,
          m_of_i_r = rr\<rparr>"

text \<open>\<^verbatim>\<open>Drone()\<close>: the constructor's default arguments.\<close>

definition Drone_default :: drone where
  "Drone_default =
     \<lparr>rotation = Vector_default,
      rotation_velocity = Vector_default,
      pos = Vector_default,
      velocity = Vector_default,
      r_speed = [0, 0, 0, 0],
      r = 15,
      weight = 50,
      size' = 10,
      m_of_i_xx = 1,
      m_of_i_zz = 1,
      m_of_i_r = 1\<rparr>"

text \<open>
  Reading a number-valued attribute \<^verbatim>\<open>self.name\<close>: the instance has the attributes
  of \<^verbatim>\<open>__init__\<close>, the class has only its methods, so any other name raises.
\<close>

definition load_attr :: "drone \<Rightarrow> string \<Rightarrow> real result" where
  "load_attr self name =
     (if name = ''r'' then Inr (r self)
      else if name = ''weight'' then Inr (weight self)
      else if name = ''size'' then Inr (size' self)
      else if name = ''m_of_i_xx'' then Inr (m_of_i_xx self)
      else if name = ''m_of_i_zz'' then Inr (m_of_i_zz self)
      else if name = ''m_of_i_r'' then Inr (m_of_i_r self)
      else Inl (AttributeError name))"

subsection \<open>\<^verbatim>\<open>calc_rotor_force\<close>\<close>

definition drag_coef_default :: real where
  "drag_coef_default = 0.05"

definition air_density_default :: real where
  "air_density_default = 1.225"

definition calc_rotor_force :: "drone \<Rightarrow> real \<Rightarrow> real \<Rightarrow> real \<Rightarrow> real" where
  "calc_rotor_force self speed drag_coef air_density =
     drag_coef * air_density * pi * r self ^ 3 * speed"

subsection \<open>\<^verbatim>\<open>calc_thrust\<close>\<close>

text \<open>
  The arrays of the method body are lists of rows, and \<^verbatim>\<open>matmul\<close> is the matrix
  product. The method reaches them through the global name \<^verbatim>\<open>np\<close> and the
  attributes \<^verbatim>\<open>roll\<close>, \<^verbatim>\<open>pitch\<close> and \<^verbatim>\<open>yaw\<close> of the object.
\<close>

type_synonym matrix = "real list list"

definition matmul :: "matrix \<Rightarrow> matrix \<Rightarrow> matrix" where
  "matmul a b =
     map (\<lambda>row. map (\<lambda>col. sum_list (map2 (*) row col)) (transpose b)) a"

definition roll_matrix :: "real \<Rightarrow> matrix" where
  "roll_matrix a = [[cos a, 0, - sin a], [0, 1, 0], [sin a, 0, cos a]]"

definition pitch_matrix :: "real \<Rightarrow> matrix" where
  "pitch_matrix a = [[1, 0, 0], [0, cos a, - sin a], [0, sin a, cos a]]"

definition yaw_matrix :: "real \<Rightarrow> matrix" where
  "yaw_matrix a = [[cos a, sin a, 0], [- sin a, cos a, 0], [0, 0, 1]]"

definition row_scalar :: "matrix \<Rightarrow> nat \<Rightarrow> real result" where
  "row_scalar m i =
     and_then (py_getitem m i) (\<lambda>row. py_getitem row 0)"

definition calc_thrust :: "drone \<Rightarrow> vector result" where
  "calc_thrust self =
     (let total_force =
            sum_list (map (\<lambda>s. calc_rotor_force self s drag_coef_default air_density_default)
                          (r_speed self))
      in and_then (load_global ''np'') (\<lambda>_.
         let force_matrix = [[0], [0], [total_force]] in
         and_then (load_global ''np'') (\<lambda>_.
         and_then (load_attr self ''roll'') (\<lambda>roll.
         and_then (load_global ''np'') (\<lambda>_.
         let force_matrix = matmul (roll_matrix roll) force_matrix in
         and_then (load_global ''np'') (\<lambda>_.
         and_then (load_attr self ''pitch'') (\<lambda>pitch.
         and_then (load_global ''np'') (\<lambda>_.
         let force_matrix = matmul (pitch_matrix pitch) force_matrix in
         and_then (load_global ''np'') (\<lambda>_.
         and_then (load_attr self ''yaw'') (\<lambda>yaw.
         and_then (load_global ''np'') (\<lambda>_.
         let force_matrix = matmul (yaw_matrix yaw) force_matrix in
         and_then (row_scalar force_matrix 0) (\<lambda>f0.
         and_then (row_scalar force_matrix 1) (\<lambda>f1.
         and_then (row_scalar force_matrix 2) (\<lambda>f2.
         Inr (Vector f0 f1 f2)))))))))))))))"

subsection \<open>\<^verbatim>\<open>calc_rotation\<close> and \<^verbatim>\<open>calc_yaw\<close>\<close>

definition calc_rotation :: "drone \<Rightarrow> real \<Rightarrow> real \<Rightarrow> real result" where
  "calc_rotation self front_speed back_speed =
     (let front_force = calc_rotor_force self front_speed drag_coef_default air_density_default;
          back_force = calc_rotor_force self back_speed drag_coef_default air_density_default;
          total_force = front_force - back_force;
          torque = total_force * size' self / 2
      in py_truediv torque (m_of_i_xx self))"

definition calc_yaw :: "drone \<Rightarrow> real result" where
  "calc_yaw self =
     (let angular_momentum = map (\<lambda>s. m_of_i_r self * s) (r_speed self) in
      and_then (list_imul angular_momentum (PyList [1, - 1, 1, - 1])) (\<lambda>angular_momentum.
      let total_angular_momentum = sum_list angular_momentum in
      py_truediv total_angular_momentum (m_of_i_zz self)))"

subsection \<open>\<^verbatim>\<open>change_rotor_speed\<close>\<close>

text \<open>
  The function is defined in the class body with the single parameter
  \<^verbatim>\<open>r_speed\<close>. Its body names \<^verbatim>\<open>self\<close>, which is then a global name: with four
  elements the assignment raises before it stores anything, otherwise the body does
  nothing. This is the call through the class, \<^verbatim>\<open>Drone.change_rotor_speed(xs)\<close>.
\<close>

definition change_rotor_speed_params :: nat where
  "change_rotor_speed_params = 1"

definition change_rotor_speed :: "real list \<Rightarrow> unit result" where
  "change_rotor_speed r_speed_arg =
     (if length r_speed_arg = 4 then load_global ''self'' else Inr ())"

text \<open>
  The call through an instance, \<^verbatim>\<open>self.change_rotor_speed(a1, ..., an)\<close>, passes the
  instance as the first argument. With \<open>n > 0\<close> that is more arguments than the one
  parameter; with \<open>n = 0\<close> the instance itself is \<^verbatim>\<open>r_speed\<close>, and the class defines
  no \<^verbatim>\<open>__len__\<close>. The object is returned as the call leaves it.
\<close>

definition bound_change_rotor_speed ::
  "drone \<Rightarrow> real list list \<Rightarrow> unit result \<times> drone" where
  "bound_change_rotor_speed self args =
     (if Suc (length args) = change_rotor_speed_params
      then (Inl (TypeError ''object of type 'Drone' has no len()''), self)
      else (Inl (TypeError ''change_rotor_speed() takes 1 positional argument''), self))"

subsection \<open>\<^verbatim>\<open>update\<close>\<close>

text \<open>
  The statements before the two assignments compute the acceleration and the three
  rotation rates; none of them assigns to the object.
\<close>

definition update_rates :: "drone \<Rightarrow> real \<Rightarrow> (vector \<times> real \<times> real \<times> real) result" where
  "update_rates self g =
     and_then (calc_thrust self) (\<lambda>thrust.
     let gravity = Vector 0 0 g;
         total_force = vector_add thrust gravity in
     and_then (vector_truediv total_force (weight self)) (\<lambda>acceleration.
     and_then (py_getitem (r_speed self) 0) (\<lambda>s0.
     and_then (py_getitem (r_speed self) 3) (\<lambda>s3.
     and_then (calc_rotation self s0 s3) (\<lambda>roll.
     and_then (py_getitem (r_speed self) 1) (\<lambda>s1.
     and_then (py_getitem (r_speed self) 2) (\<lambda>s2.
     and_then (calc_rotation self s1 s2) (\<lambda>pitch.
     and_then (calc_yaw self) (\<lambda>yaw.
     Inr (acceleration, roll, pitch, yaw))))))))))"

definition update :: "drone \<Rightarrow> real \<Rightarrow> real \<Rightarrow> real list option \<Rightarrow> unit result \<times> drone" where
  "update self dt g r_speed_arg =
     (case (case r_speed_arg of
              None \<Rightarrow> (Inr (), self)
            | Some speeds \<Rightarrow> bound_change_rotor_speed self [speeds]) of
        (Inl e, self1) \<Rightarrow> (Inl e, self1)
      | (Inr u, self1) \<Rightarrow>
          (case update_rates self1 g of
             Inl e \<Rightarrow> (Inl e, self1)
           | Inr (acceleration, roll, pitch, yaw) \<Rightarrow>
               (let self2 = self1\<lparr>pos := vector_add (pos self1) (vector_mul (velocity self1) dt)\<rparr>;
                    self3 = self2\<lparr>velocity :=
                                    vector_add (velocity self2) (vector_mul acceleration dt)\<rparr>
                in (Inr (), self3))))"


text \<open>
  The statements of \<^verbatim>\<open>update\<close> from \<^verbatim>\<open>gravity = Vector(0, 0, g)\<close> to its last
  assignment, as a function of what the calls of \<^verbatim>\<open>calc_thrust\<close> and \<^verbatim>\<open>calc_yaw\<close>
  return: the statements of \<open>update_rates\<close> and of the last branch of \<open>update\<close>, in
  the same order, with the two results passed in.
\<close>

definition update_rates_from ::
  "vector result \<Rightarrow> real result \<Rightarrow> drone \<Rightarrow> real \<Rightarrow> (vector \<times> real \<times> real \<times> real) result" where
  "update_rates_from thrust_result yaw_result self g =
     and_then thrust_result (\<lambda>thrust.
     let gravity = Vector 0 0 g;
         total_force = vector_add thrust gravity in
     and_then (vector_truediv total_force (weight self)) (\<lambda>acceleration.
     and_then (py_getitem (r_speed self) 0) (\<lambda>s0.
     and_then (py_getitem (r_speed self) 3) (\<lambda>s3.
     and_then (calc_rotation self s0 s3) (\<lambda>roll.
     and_then (py_getitem (r_speed self) 1) (\<lambda>s1.
     and_then (py_getitem (r_speed self) 2) (\<lambda>s2.
     and_then (calc_rotation self s1 s2) (\<lambda>pitch.
     and_then yaw_result (\<lambda>yaw.
     Inr (acceleration, roll, pitch, yaw))))))))))"

definition update_from ::
  "vector result \<Rightarrow> real result \<Rightarrow> drone \<Rightarrow> real \<Rightarrow> real \<Rightarrow> unit result \<times> drone" where
  "update_from thrust_result yaw_result self dt g =
     (case update_rates_from thrust_result yaw_result self g of
        Inl e \<Rightarrow> (Inl e, self)
      | Inr (acceleration, roll, pitch, yaw) \<Rightarrow>
          (let self2 = self\<lparr>pos := vector_add (pos self) (vector_mul (velocity self) dt)\<rparr>;
               self3 = self2\<lparr>velocity :=
                               vector_add (velocity self2) (vector_mul acceleration dt)\<rparr>
           in (Inr (), self3)))"

subsection \<open>\<^verbatim>\<open>get_params\<close>\<close>

text \<open>The list display evaluates its nine elements from left to right.\<close>

definition get_params :: "drone \<Rightarrow> real list result" where
  "get_params self =
     (let p0 = x (pos self); p1 = y (pos self); p2 = z (pos self);
          p3 = x (velocity self); p4 = y (velocity self); p5 = z (velocity self)
      in and_then (load_attr self ''roll'') (\<lambda>p6.
         and_then (load_attr self ''pitch'') (\<lambda>p7.
         and_then (load_attr self ''yaw'') (\<lambda>p8.
         Inr [p0, p1, p2, p3, p4, p5, p6, p7, p8]))))"

section \<open>What the interpreter does with the method bodies\<close>

subsection \<open>Unbound names and attributes\<close>

lemma load_global_np: "load_global ''np'' = Inl (NameError ''np'')"
  by (simp add: load_global_def module_globals_def)

lemma load_global_self: "load_global ''self'' = Inl (NameError ''self'')"
  by (simp add: load_global_def module_globals_def)

lemma load_attr_roll: "load_attr self ''roll'' = Inl (AttributeError ''roll'')"
  by (simp add: load_attr_def)

lemma calc_thrust_NameError: "calc_thrust self = Inl (NameError ''np'')"
  by (simp add: calc_thrust_def Let_def and_then_def load_global_np)

lemma update_rates_NameError: "update_rates self g = Inl (NameError ''np'')"
  by (simp add: update_rates_def and_then_def calc_thrust_NameError)

lemma bound_one_arg:
  "bound_change_rotor_speed self [speeds] =
     (Inl (TypeError ''change_rotor_speed() takes 1 positional argument''), self)"
  by (simp add: bound_change_rotor_speed_def change_rotor_speed_params_def)

subsection \<open>Every call of \<^verbatim>\<open>update\<close> ends in an exception\<close>

lemma update_None: "update self dt g None = (Inl (NameError ''np''), self)"
  by (simp add: update_def update_rates_NameError)

lemma update_Some:
  "update self dt g (Some speeds) =
     (Inl (TypeError ''change_rotor_speed() takes 1 positional argument''), self)"
  by (simp add: update_def bound_one_arg)

subsection \<open>The statements of \<^verbatim>\<open>update\<close> behind the two calls\<close>

text \<open>
  Both equations hold by unfolding the definitions alone, whatever the two methods
  return.
\<close>

lemma update_rates_as_from:
  "update_rates self g = update_rates_from (calc_thrust self) (calc_yaw self) self g"
  unfolding update_rates_def update_rates_from_def ..

lemma update_as_from:
  "update self dt g None = update_from (calc_thrust self) (calc_yaw self) self dt g"
  unfolding update_def update_from_def update_rates_as_from by simp




section \<open>The claims\<close>

text \<open>
  C1 (the code departs from it). The claim: a tick computes the acceleration as
  (thrust + (0, 0, g)) / mass, adds velocity times dt to the position and then
  acceleration times dt to the velocity, so that from rest the velocity gains
  acceleration times dt. On the default drone, at rest with rotors still, one call
  \<^verbatim>\<open>update(1, -9.81)\<close> raises \<^verbatim>\<open>NameError\<close> for \<^verbatim>\<open>np\<close> inside \<^verbatim>\<open>calc_thrust\<close>
  and leaves the velocity at zero, where the claim's formula gives the velocity
  (0, 0, -9.81 / 50) = (0, 0, -0.1962).
\<close>

theorem update_from_rest_raises:
  "update Drone_default 1 (- 9.81) None = (Inl (NameError ''np''), Drone_default)
   \<and> velocity (snd (update Drone_default 1 (- 9.81) None)) = Vector 0 0 0
   \<and> vector_truediv (vector_add (Vector 0 0 0) (Vector 0 0 (- 9.81))) (weight Drone_default)
       = Inr (Vector 0 0 (- 0.1962))"
  by (simp add: update_None Drone_default_def Vector_default_def vector_truediv_def
      vector_add_def Vector_def py_truediv_def and_then_def)

text \<open>
  C2. For every rotor speed \<open>s\<close> the force of one rotor is
  drag coefficient times air density times pi times the cube of the rotor radius
  times \<open>s\<close>, with 0.05 and 1.225 as the default drag coefficient and air density,
  and doubling the speed doubles the force.
\<close>

theorem calc_rotor_force_linear:
  "calc_rotor_force self s drag_coef air_density
     = drag_coef * air_density * pi * r self ^ 3 * s
   \<and> calc_rotor_force self s drag_coef_default air_density_default
     = 0.05 * 1.225 * pi * r self ^ 3 * s
   \<and> calc_rotor_force self (2 * s) drag_coef air_density
     = 2 * calc_rotor_force self s drag_coef air_density"
  by (simp add: calc_rotor_force_def drag_coef_default_def air_density_default_def)

text \<open>
  C3 (the code departs from it). The claim: the thrust vector is the total rotor
  force on the body Z axis, turned by the roll, pitch and yaw matrices in that
  order at the current angles. For every drone \<^verbatim>\<open>calc_thrust\<close> raises \<^verbatim>\<open>NameError\<close>
  at its first use of \<^verbatim>\<open>np\<close>, before any matrix is built, and the angle it would
  read next, \<^verbatim>\<open>self.roll\<close>, is not an attribute of the object.
\<close>

theorem calc_thrust_raises:
  "calc_thrust self = Inl (NameError ''np'')
   \<and> load_attr self ''roll'' = Inl (AttributeError ''roll'')
   \<and> load_attr self ''pitch'' = Inl (AttributeError ''pitch'')
   \<and> load_attr self ''yaw'' = Inl (AttributeError ''yaw'')"
  by (simp add: calc_thrust_NameError load_attr_def)

text \<open>
  C4 (the code departs from it). The claim: with valid numbers a tick completes
  and raises nothing. Every call of \<^verbatim>\<open>update\<close> raises: without rotor speeds a
  \<^verbatim>\<open>NameError\<close> from \<^verbatim>\<open>calc_thrust\<close>, with rotor speeds a \<^verbatim>\<open>TypeError\<close> from the call
  of \<^verbatim>\<open>change_rotor_speed\<close>; and \<^verbatim>\<open>calc_yaw\<close>, further down the body, raises a
  \<^verbatim>\<open>TypeError\<close> on every drone as well.
\<close>

theorem update_raises:
  "fst (update self dt g None) = Inl (NameError ''np'')
   \<and> fst (update self dt g (Some speeds))
       = Inl (TypeError ''change_rotor_speed() takes 1 positional argument'')
   \<and> calc_yaw self = Inl (TypeError ''can't multiply sequence by non-int of type 'list' '')"
  by (simp add: update_None update_Some calc_yaw_def Let_def and_then_def)

text \<open>
  C5 (the code departs from it). The claim: setting rotor speeds with a sequence
  whose length is not 4 silently does nothing, and with four elements replaces
  the stored speeds. Called on a drone, \<^verbatim>\<open>change_rotor_speed\<close> raises \<^verbatim>\<open>TypeError\<close>
  for three elements and for four alike, directly and through \<^verbatim>\<open>update\<close>, and the
  stored speeds stay as they were; called through the class with four elements it
  raises \<^verbatim>\<open>NameError\<close> for \<^verbatim>\<open>self\<close>.
\<close>

theorem change_rotor_speed_raises:
  "bound_change_rotor_speed Drone_default [[1, 2, 3, 4]]
     = (Inl (TypeError ''change_rotor_speed() takes 1 positional argument''), Drone_default)
   \<and> bound_change_rotor_speed Drone_default [[1, 2, 3]]
     = (Inl (TypeError ''change_rotor_speed() takes 1 positional argument''), Drone_default)
   \<and> update Drone_default 1 (- 9.81) (Some [1, 2, 3, 4])
     = (Inl (TypeError ''change_rotor_speed() takes 1 positional argument''), Drone_default)
   \<and> change_rotor_speed [1, 2, 3, 4] = Inl (NameError ''self'')
   \<and> r_speed Drone_default = [0, 0, 0, 0]"
  by (simp add: bound_one_arg update_Some change_rotor_speed_def load_global_self
      Drone_default_def)

text \<open>
  C6 (the code departs from it). The claim: a tick adds the roll, pitch and yaw
  rates times dt to the orientation. On the default drone with the stored speeds
  set to [1, 0, 0, 0] the roll rate of the first and last rotor is
  1033.59375 pi, not zero, and after \<^verbatim>\<open>update(1, -9.81)\<close> the orientation is
  still the zero vector.
\<close>

theorem update_keeps_rotation:
  "rotation (snd (update (Drone_default\<lparr>r_speed := [1, 0, 0, 0]\<rparr>) 1 (- 9.81) None))
     = Vector 0 0 0
   \<and> calc_rotation (Drone_default\<lparr>r_speed := [1, 0, 0, 0]\<rparr>) 1 0 = Inr (1033.59375 * pi)"
  by (simp add: update_None Drone_default_def Vector_default_def calc_rotation_def Let_def
      calc_rotor_force_def drag_coef_default_def air_density_default_def py_truediv_def)


text \<open>
  C8 (the code departs from it). The claim: \<^verbatim>\<open>get_params\<close> returns the nine
  numbers position, velocity, roll, pitch, yaw. On every drone the method raises
  \<^verbatim>\<open>AttributeError\<close> at its seventh element, \<^verbatim>\<open>self.roll\<close>, and returns no list.
\<close>

theorem get_params_raises:
  "get_params self = Inl (AttributeError ''roll'')"
  by (simp add: get_params_def Let_def and_then_def load_attr_roll)

text \<open>
  C9, as stated, fails: constructing a drone of weight zero raises nothing and
  gives the default drone with its weight set to zero.
\<close>

theorem Drone_init_zero_weight_counterexample:
  "Drone_init 15 0 10 1 1 1 = Inr (Drone_default\<lparr>weight := 0\<rparr>)"
  by (simp add: Drone_init_def Drone_default_def)

text \<open>
  C9 (amended). Construction checks nothing: for any six constants, zero and
  negative weight and moments of inertia included, it raises no error and yields
  a drone that stores the constants as given, with the orientation, its rate, the
  position and the velocity zero and the rotor speeds [0, 0, 0, 0].
\<close>

theorem Drone_init_never_raises:
  "\<exists>d. Drone_init rotor_radius w s xx zz rr = Inr d
       \<and> r d = rotor_radius \<and> weight d = w \<and> size' d = s
       \<and> m_of_i_xx d = xx \<and> m_of_i_zz d = zz \<and> m_of_i_r d = rr
       \<and> rotation d = Vector 0 0 0 \<and> rotation_velocity d = Vector 0 0 0
       \<and> pos d = Vector 0 0 0 \<and> velocity d = Vector 0 0 0
       \<and> r_speed d = [0, 0, 0, 0]"
  by (simp add: Drone_init_def Vector_default_def)

text \<open>
  C10. A call of \<^verbatim>\<open>update\<close>, with or without rotor speeds, leaves the six physical
  constants, the orientation and its rate as they were, and a call without rotor
  speeds leaves the stored rotor speeds as they were. The proof follows the
  branches of \<open>update\<close>: only \<open>pos\<close> and \<open>velocity\<close> are ever assigned.
\<close>

theorem update_frame:
  "r (snd (update self dt g arg)) = r self
   \<and> weight (snd (update self dt g arg)) = weight self
   \<and> size' (snd (update self dt g arg)) = size' self
   \<and> m_of_i_xx (snd (update self dt g arg)) = m_of_i_xx self
   \<and> m_of_i_zz (snd (update self dt g arg)) = m_of_i_zz self
   \<and> m_of_i_r (snd (update self dt g arg)) = m_of_i_r self
   \<and> rotation (snd (update self dt g arg)) = rotation self
   \<and> rotation_velocity (snd (update self dt g arg)) = rotation_velocity self
   \<and> r_speed (snd (update self dt g None)) = r_speed self"
  by (auto simp: update_def bound_change_rotor_speed_def Let_def
      split: option.splits sum.splits prod.splits)

end
